theory Spec2Isabelle
  imports Complex_Main "HOL-Library.Log_Nat" "HOL-Library.AList"
begin

section \<open>Python values\<close>

subsection \<open>Strings\<close>

text \<open>
  A Python \<open>str\<close> is a sequence of Unicode code points; slices such as \<open>str(e)[:80]\<close>
  count code points. The status texts of \<open>main.py\<close> contain code points above 255, so a
  string is a list of code points. \<open>str\<close> embeds an ASCII literal.
\<close>

type_synonym pystr = "nat list"

definition str :: "string \<Rightarrow> pystr" where
  "str cs = map of_char cs"

subsection \<open>Floats\<close>

text \<open>
  A Python \<open>float\<close> is an IEEE 754 binary64 value. A finite one is represented by the
  rational number it denotes (so \<open>0.0\<close> and \<open>-0.0\<close>, which Python compares equal and
  both treats as false, are one value). \<open>round64\<close> rounds a rational to the nearest
  binary64 value, ties to even, with gradual underflow below \<open>2^-1022\<close> and overflow to
  an infinity when the rounded value reaches \<open>2^1024\<close>. \<open>floor_log2 x\<close> is the
  exponent \<open>e\<close> with \<open>2^e \<le> x < 2^(e+1)\<close> of a positive \<open>x\<close>.
\<close>

datatype pyfloat = Fin rat | PInf | NInf | NaN

definition pow2 :: "int \<Rightarrow> rat" where
  "pow2 e = (if 0 \<le> e then 2 ^ nat e else 1 / 2 ^ nat (- e))"

definition floor_log2 :: "rat \<Rightarrow> int" where
  "floor_log2 x = (case quotient_of x of (p, q) \<Rightarrow>
     (let d = bitlen p - bitlen q in if pow2 d \<le> x then d else d - 1))"

definition round_half_even :: "rat \<Rightarrow> int" where
  "round_half_even x = (let f = \<lfloor>x\<rfloor>; r = x - of_int f in
     if r < 1 / 2 then f else if 1 / 2 < r then f + 1 else if even f then f else f + 1)"

definition round64 :: "rat \<Rightarrow> pyfloat" where
  "round64 x = (if x = 0 then Fin 0 else
     (let e = floor_log2 \<bar>x\<bar>; q = max (e - 52) (- 1074);
          y = of_int (round_half_even (x / pow2 q)) * pow2 q
      in if 1024 \<le> floor_log2 \<bar>y\<bar> then (if 0 < x then PInf else NInf) else Fin y))"

fun sign_of :: "pyfloat \<Rightarrow> rat" where
  "sign_of (Fin a) = sgn a"
| "sign_of PInf = 1"
| "sign_of NInf = - 1"
| "sign_of NaN = 0"

definition inf_of_sign :: "rat \<Rightarrow> pyfloat" where
  "inf_of_sign s = (if s = 0 then NaN else if 0 < s then PInf else NInf)"

text \<open>\<open>x * y\<close> on floats: an infinity times zero is NaN.\<close>

fun fmul :: "pyfloat \<Rightarrow> pyfloat \<Rightarrow> pyfloat" where
  "fmul NaN y = NaN"
| "fmul x NaN = NaN"
| "fmul (Fin a) (Fin b) = round64 (a * b)"
| "fmul x y = inf_of_sign (sign_of x * sign_of y)"

text \<open>\<open>x + y\<close> on floats: the sum of opposite infinities is NaN.\<close>

fun fadd :: "pyfloat \<Rightarrow> pyfloat \<Rightarrow> pyfloat" where
  "fadd NaN y = NaN"
| "fadd x NaN = NaN"
| "fadd (Fin a) (Fin b) = round64 (a + b)"
| "fadd (Fin a) y = y"
| "fadd x (Fin b) = x"
| "fadd x y = (if x = y then x else NaN)"

fun fneg :: "pyfloat \<Rightarrow> pyfloat" where
  "fneg (Fin a) = Fin (- a)"
| "fneg PInf = NInf"
| "fneg NInf = PInf"
| "fneg NaN = NaN"

definition fsub :: "pyfloat \<Rightarrow> pyfloat \<Rightarrow> pyfloat" where
  "fsub x y = fadd x (fneg y)"

fun isfinite :: "pyfloat \<Rightarrow> bool" where
  "isfinite (Fin a) = True"
| "isfinite x = False"

text \<open>\<open>fabs(x) >= fabs(y)\<close> in C: false as soon as one side is NaN.\<close>

fun fabs_ge :: "pyfloat \<Rightarrow> pyfloat \<Rightarrow> bool" where
  "fabs_ge NaN y = False"
| "fabs_ge x NaN = False"
| "fabs_ge (Fin a) (Fin b) = (\<bar>b\<bar> \<le> \<bar>a\<bar>)"
| "fabs_ge (Fin a) y = False"
| "fabs_ge x y = True"

text \<open>Truth value of a float: every value but zero is true, NaN included.\<close>

fun truthy :: "pyfloat \<Rightarrow> bool" where
  "truthy (Fin a) = (a \<noteq> 0)"
| "truthy x = True"

text \<open>
  \<open>x or d\<close>. The source writes the defaults as the integers \<open>1\<close> and \<open>0\<close>; an
  integer is represented by the float of the same value, which is what the
  multiplication by a float, \<open>sum\<close>, \<open>* 0.16\<close> and \<open>+\<close> convert it to, exactly.
\<close>

definition py_or :: "pyfloat \<Rightarrow> pyfloat \<Rightarrow> pyfloat" where
  "py_or x d = (if truthy x then x else d)"

text \<open>
  \<open>round(x, 2)\<close> on a float: NaN and the infinities round to themselves; a finite
  value is rounded to two decimals on its exact value, half to even, and the decimal
  result is converted back to the nearest float.
\<close>

fun round2 :: "pyfloat \<Rightarrow> pyfloat" where
  "round2 (Fin a) = round64 (of_int (round_half_even (a * 100)) / 100)"
| "round2 x = x"

text \<open>The literal \<open>0.16\<close>: the float nearest to 16/100.\<close>

definition lit_0_16 :: pyfloat where
  "lit_0_16 = round64 (16 / 100)"

subsection \<open>The builtin \<open>sum\<close>\<close>

text \<open>
  \<open>sum\<close> starts from the integer 0 and adds the items from left to right. Up to
  CPython 3.11 every step is a float addition; from 3.12 on the float loop is
  Neumaier's compensated summation: it carries the rounding errors in \<open>c\<close> and adds
  \<open>c\<close> to the result at the end when \<open>c\<close> is finite and not zero. The first item is
  added to the integer start value by a plain addition in both.
\<close>

datatype cpython = Upto_3_11 | From_3_12

fun neumaier :: "pyfloat \<Rightarrow> pyfloat \<Rightarrow> pyfloat list \<Rightarrow> pyfloat" where
  "neumaier f c [] = (if c \<noteq> Fin 0 \<and> isfinite c then fadd f c else f)"
| "neumaier f c (x # xs) =
     (let t = fadd f x
      in neumaier t
           (fadd c (if fabs_ge f x then fadd (fsub f t) x else fadd (fsub x t) f)) xs)"

fun py_sum :: "cpython \<Rightarrow> pyfloat list \<Rightarrow> pyfloat" where
  "py_sum v [] = Fin 0"
| "py_sum Upto_3_11 (x # xs) = foldl fadd (fadd (Fin 0) x) xs"
| "py_sum From_3_12 (x # xs) = neumaier (fadd (Fin 0) x) (Fin 0) xs"

subsection \<open>JSON-like values, documents, exceptions\<close>

datatype pyval =
    VNone
  | VBool bool
  | VNum pyfloat
  | VStr pystr
  | VList "pyval list"
  | VDict "(pystr \<times> pyval) list"

text \<open>A \<open>dict\<close> with string keys, in insertion order.\<close>

type_synonym document = "(pystr \<times> pyval) list"

text \<open>An exception, as far as the handlers look at it: its message \<open>str(e)\<close>.\<close>

datatype exn = Exception pystr

fun str_of :: "exn \<Rightarrow> pystr" where
  "str_of (Exception m) = m"

datatype http_exception = HTTPException (status_code: nat) (detail: pystr)

section \<open>schemas.py\<close>

record ProposalItem =
  catalog_item_id :: "pystr option"
  title :: pystr
  description :: "pystr option"
  quantity :: pyfloat
  unit_price_kes :: pyfloat

text \<open>
  The constructor of \<open>ProposalItem\<close> with its declared defaults: \<open>quantity: float = 1\<close>
  and \<open>unit_price_kes: float = 0\<close>; an argument that is left out is \<open>None\<close> here.
  Neither field declares a bound.
\<close>

definition ProposalItem_init ::
  "pystr option \<Rightarrow> pystr \<Rightarrow> pystr option \<Rightarrow> pyfloat option \<Rightarrow> pyfloat option \<Rightarrow> ProposalItem" where
  "ProposalItem_init cid t d q u =
     \<lparr>catalog_item_id = cid, title = t, description = d,
      quantity = (case q of None \<Rightarrow> Fin 1 | Some x \<Rightarrow> x),
      unit_price_kes = (case u of None \<Rightarrow> Fin 0 | Some x \<Rightarrow> x)\<rparr>"

datatype proposal_status = Draft | Approved | Sent | Accepted | Rejected

datatype proposal_ai_status = Ai_none | Pending | Completed | Failed

datatype delivery_channel = Whatsapp | Gmail | Pdf

record Proposal =
  tenant_id :: pystr
  lead_id :: pystr
  items :: "ProposalItem list"
  subtotal_kes :: pyfloat
  tax_kes :: pyfloat
  total_kes :: pyfloat
  status :: proposal_status
  ai_status :: proposal_ai_status
  delivery_channels :: "delivery_channel list"

text \<open>The closed set of \<open>Lead.source\<close>: \<open>Literal["whatsapp", "gmail", "web", "social", "manual"]\<close>.\<close>

definition Lead_source_literal :: "pystr list" where
  "Lead_source_literal = [str ''whatsapp'', str ''gmail'', str ''web'', str ''social'', str ''manual'']"

text \<open>The model classes and the registry \<open>SCHEMA_MODELS\<close>, in the order of the source.\<close>

datatype model_class =
    Tenant_class | BillingRecord_class | ModuleSubscription_class | UserAccount_class
  | Lead_class | Message_class | CatalogItem_class | Proposal_class | Payment_class
  | AIJob_class | EventLog_class

definition SCHEMA_MODELS :: "(pystr \<times> model_class) list" where
  "SCHEMA_MODELS =
     [(str ''tenant'', Tenant_class),
      (str ''billingrecord'', BillingRecord_class),
      (str ''modulesubscription'', ModuleSubscription_class),
      (str ''useraccount'', UserAccount_class),
      (str ''lead'', Lead_class),
      (str ''message'', Message_class),
      (str ''catalogitem'', CatalogItem_class),
      (str ''proposal'', Proposal_class),
      (str ''payment'', Payment_class),
      (str ''aijob'', AIJob_class),
      (str ''eventlog'', EventLog_class)]"


section \<open>main.py\<close>

text \<open>
  \<open>database.py\<close> is not part of the sources: \<open>create_document\<close> and \<open>get_documents\<close>
  are parameters of the handlers. Such an operation takes the state of the store and
  returns the new state with either the exception it raised or its result.
  \<open>create_document\<close> is called with a \<open>dict\<close> by \<open>create_lead\<close> and with a model
  instance by \<open>create_proposal_draft\<close>.
\<close>

datatype store_arg = Dict document | Model Proposal

type_synonym 's create_document_fn =
  "pystr \<Rightarrow> store_arg \<Rightarrow> 's \<Rightarrow> (exn + pystr) \<times> 's"

type_synonym 's get_documents_fn =
  "pystr \<Rightarrow> document \<Rightarrow> nat \<Rightarrow> 's \<Rightarrow> (exn + document list) \<times> 's"

subsection \<open>POST /proposals/draft\<close>

record ProposalDraftIn =
  tenant_id :: pystr
  lead_id :: pystr
  items :: "ProposalItem list"

text \<open>Lines 90 to 92 of \<open>create_proposal_draft\<close>.\<close>

definition subtotal_of :: "cpython \<Rightarrow> ProposalItem list \<Rightarrow> pyfloat" where
  "subtotal_of v its =
     py_sum v (map (\<lambda>it. fmul (py_or (quantity it) (Fin 1)) (py_or (unit_price_kes it) (Fin 0))) its)"

definition tax_of :: "pyfloat \<Rightarrow> pyfloat" where
  "tax_of subtotal = round2 (fmul subtotal lit_0_16)"

definition total_of :: "pyfloat \<Rightarrow> pyfloat \<Rightarrow> pyfloat" where
  "total_of subtotal tax = round2 (fadd subtotal tax)"

definition create_proposal_draft ::
  "cpython \<Rightarrow> 's create_document_fn \<Rightarrow> ProposalDraftIn \<Rightarrow> 's \<Rightarrow> (http_exception + pyval) \<times> 's" where
  "create_proposal_draft v create_document payload s =
     (let subtotal = subtotal_of v (ProposalDraftIn.items payload);
          tax = tax_of subtotal;
          total = total_of subtotal tax;
          proposal = \<lparr>Proposal.tenant_id = ProposalDraftIn.tenant_id payload,
                      lead_id = ProposalDraftIn.lead_id payload,
                      items = ProposalDraftIn.items payload,
                      subtotal_kes = subtotal,
                      tax_kes = tax,
                      total_kes = total,
                      status = Draft,
                      ai_status = Pending,
                      delivery_channels = [Pdf]\<rparr>
      in case create_document (str ''proposal'') (Model proposal) s of
           (Inr inserted_id, s') \<Rightarrow>
             (Inr (VDict [(str ''id'', VStr inserted_id),
                          (str ''status'', VStr (str ''draft_created'')),
                          (str ''totals'', VDict [(str ''subtotal'', VNum subtotal),
                                                  (str ''tax'', VNum tax),
                                                  (str ''total'', VNum total)])]), s')
         | (Inl e, s') \<Rightarrow> (Inl (HTTPException 500 (str_of e)), s'))"

subsection \<open>POST /leads\<close>

record LeadIn =
  tenant_id :: pystr
  source :: pystr
  name :: "pystr option"
  phone :: "pystr option"
  email :: "pystr option"
  company :: "pystr option"

text \<open>
  Validation of a request body against \<open>LeadIn\<close>, as the declaration of the class
  fixes it: the body is the \<open>dict\<close> parsed from JSON; \<open>tenant_id\<close> and \<open>source\<close> are
  required strings; the four other fields are a string or \<open>None\<close> and default to
  \<open>None\<close>; a \<open>str\<close> field takes a string only; the class sets no \<open>extra\<close> policy, so
  keys it does not declare are not looked at.
\<close>

datatype validation_error = Missing pystr | String_type pystr

definition required_str :: "(pystr \<rightharpoonup> pyval) \<Rightarrow> pystr \<Rightarrow> validation_error + pystr" where
  "required_str raw k =
     (case raw k of
        None \<Rightarrow> Inl (Missing k)
      | Some (VStr x) \<Rightarrow> Inr x
      | Some _ \<Rightarrow> Inl (String_type k))"

definition optional_str :: "(pystr \<rightharpoonup> pyval) \<Rightarrow> pystr \<Rightarrow> validation_error + pystr option" where
  "optional_str raw k =
     (case raw k of
        None \<Rightarrow> Inr None
      | Some VNone \<Rightarrow> Inr None
      | Some (VStr x) \<Rightarrow> Inr (Some x)
      | Some _ \<Rightarrow> Inl (String_type k))"

definition and_then :: "'e + 'a \<Rightarrow> ('a \<Rightarrow> 'e + 'b) \<Rightarrow> 'e + 'b" where
  "and_then r f = (case r of Inl e \<Rightarrow> Inl e | Inr x \<Rightarrow> f x)"

definition LeadIn_validate :: "(pystr \<rightharpoonup> pyval) \<Rightarrow> validation_error + LeadIn" where
  "LeadIn_validate raw =
     and_then (required_str raw (str ''tenant_id'')) (\<lambda>t.
     and_then (required_str raw (str ''source'')) (\<lambda>so.
     and_then (optional_str raw (str ''name'')) (\<lambda>n.
     and_then (optional_str raw (str ''phone'')) (\<lambda>p.
     and_then (optional_str raw (str ''email'')) (\<lambda>e.
     and_then (optional_str raw (str ''company'')) (\<lambda>c.
       Inr \<lparr>LeadIn.tenant_id = t, source = so, name = n, phone = p, email = e,
            company = c\<rparr>))))))"

definition LeadIn_fields :: "pystr set" where
  "LeadIn_fields = {str ''tenant_id'', str ''source'', str ''name'', str ''phone'',
                    str ''email'', str ''company''}"

fun opt_val :: "pystr option \<Rightarrow> pyval" where
  "opt_val None = VNone"
| "opt_val (Some x) = VStr x"

definition model_dump :: "LeadIn \<Rightarrow> document" where
  "model_dump payload =
     [(str ''tenant_id'', VStr (LeadIn.tenant_id payload)),
      (str ''source'', VStr (source payload)),
      (str ''name'', opt_val (name payload)),
      (str ''phone'', opt_val (phone payload)),
      (str ''email'', opt_val (email payload)),
      (str ''company'', opt_val (company payload))]"

text \<open>\<open>d.update(e)\<close>: a key of \<open>e\<close> replaces the value in place, a new key is appended.\<close>

definition dict_update :: "document \<Rightarrow> document \<Rightarrow> document" where
  "dict_update d e = foldl (\<lambda>acc (k, v). AList.update k v acc) d e"

definition create_lead ::
  "'s create_document_fn \<Rightarrow> LeadIn \<Rightarrow> 's \<Rightarrow> (http_exception + pyval) \<times> 's" where
  "create_lead create_document payload s =
     (let lead_dict = dict_update (model_dump payload)
                        [(str ''status'', VStr (str ''new'')),
                         (str ''meta'', VDict [(str ''ingest'', VStr (str ''api''))])]
      in case create_document (str ''lead'') (Dict lead_dict) s of
           (Inr inserted_id, s') \<Rightarrow>
             (Inr (VDict [(str ''id'', VStr inserted_id),
                          (str ''status'', VStr (str ''created''))]), s')
         | (Inl e, s') \<Rightarrow> (Inl (HTTPException 500 (str_of e)), s'))"

text \<open>
  The route: the framework validates the body first and calls the handler only with a
  valid \<open>LeadIn\<close>; a body that fails validation is answered without the handler.
\<close>

definition post_leads ::
  "'s create_document_fn \<Rightarrow> (pystr \<rightharpoonup> pyval) \<Rightarrow> 's
     \<Rightarrow> (validation_error + (http_exception + pyval)) \<times> 's" where
  "post_leads create_document raw s =
     (case LeadIn_validate raw of
        Inl err \<Rightarrow> (Inl err, s)
      | Inr payload \<Rightarrow> (case create_lead create_document payload s of (r, s') \<Rightarrow> (Inr r, s')))"

subsection \<open>GET /leads and GET /proposals\<close>

text \<open>The query parameter \<open>tenant_id\<close> is the argument \<open>tenant\<close>.\<close>

definition list_leads ::
  "'s get_documents_fn \<Rightarrow> pystr \<Rightarrow> 's \<Rightarrow> (http_exception + document list) \<times> 's" where
  "list_leads get_documents tenant s =
     (case get_documents (str ''lead'') [(str ''tenant_id'', VStr tenant)] 50 s of
        (Inr docs, s') \<Rightarrow> (Inr docs, s')
      | (Inl e, s') \<Rightarrow> (Inl (HTTPException 500 (str_of e)), s'))"

definition list_proposals ::
  "'s get_documents_fn \<Rightarrow> pystr \<Rightarrow> 's \<Rightarrow> (http_exception + document list) \<times> 's" where
  "list_proposals get_documents tenant s =
     (case get_documents (str ''proposal'') [(str ''tenant_id'', VStr tenant)] 50 s of
        (Inr docs, s') \<Rightarrow> (Inr docs, s')
      | (Inl e, s') \<Rightarrow> (Inl (HTTPException 500 (str_of e)), s'))"

subsection \<open>GET /test\<close>

record test_response =
  backend :: pystr
  database :: pystr
  database_url :: pystr
  database_name :: pystr
  connection_status :: pystr
  collections :: "pystr list"

text \<open>The three symbols of the status texts: U+2705, U+274C and U+26A0 U+FE0F.\<close>

definition check_mark :: pystr where "check_mark = [0x2705]"
definition cross_mark :: pystr where "cross_mark = [0x274C]"
definition warning_sign :: pystr where "warning_sign = [0x26A0, 0xFE0F]"

text \<open>
  \<open>"... Set" if os.getenv(k) else "... Not Set"\<close>: a variable that is unset, or set to
  the empty string, is reported as not set.
\<close>

definition env_flag :: "(pystr \<Rightarrow> pystr option) \<Rightarrow> pystr \<Rightarrow> pystr" where
  "env_flag getenv k =
     (case getenv k of
        None \<Rightarrow> cross_mark @ str '' Not Set''
      | Some x \<Rightarrow> (if x \<noteq> [] then check_mark @ str '' Set'' else cross_mark @ str '' Not Set''))"

text \<open>
  \<open>db\<close> is \<open>None\<close> or a database handle; \<open>list_collection_names\<close> is the method of the
  handle, which returns the names or raises. Nothing else in the outer \<open>try\<close> can
  raise, so the outer \<open>except\<close> has no case here.
\<close>

definition test_database ::
  "(pystr \<Rightarrow> pystr option) \<Rightarrow> ('db \<Rightarrow> exn + pystr list) \<Rightarrow> 'db option \<Rightarrow> test_response" where
  "test_database getenv list_collection_names db =
     (let response =
            \<lparr>backend = check_mark @ str '' Running'',
             database = cross_mark @ str '' Not Available'',
             database_url = env_flag getenv (str ''DATABASE_URL''),
             database_name = env_flag getenv (str ''DATABASE_NAME''),
             connection_status = str ''Not Connected'',
             collections = []\<rparr>
      in case db of
           Some handle \<Rightarrow>
             (let response = response\<lparr>database := check_mark @ str '' Available''\<rparr>
              in case list_collection_names handle of
                   Inr names \<Rightarrow>
                     response\<lparr>collections := take 20 names,
                              database := check_mark @ str '' Connected & Working'',
                              connection_status := str ''Connected''\<rparr>
                 | Inl e \<Rightarrow>
                     response\<lparr>database :=
                       warning_sign @ str '' Connected but error: '' @ take 80 (str_of e)\<rparr>)
         | None \<Rightarrow> response\<lparr>database := cross_mark @ str '' Not Initialized''\<rparr>)"

subsection \<open>GET /schema\<close>

text \<open>
  \<open>model_json_schema\<close> is the library's method of a model class: it returns a schema
  or raises. The loop goes through the registry in order and assigns \<open>out[name]\<close>.
\<close>

definition error_marker :: pyval where
  "error_marker = VDict [(str ''error'', VStr (str ''schema generation failed''))]"

definition get_schema :: "(model_class \<Rightarrow> exn + pyval) \<Rightarrow> document" where
  "get_schema model_json_schema =
     foldl (\<lambda>out (name, model).
              AList.update name
                (case model_json_schema model of
                   Inr example \<Rightarrow> example
                 | Inl e \<Rightarrow> error_marker) out)
       [] SCHEMA_MODELS"

section \<open>The document store adapter\<close>

text \<open>
  The state of the adapter: \<open>None\<close> when the connection was never established,
  otherwise the documents of each collection, in the store's own order.
\<close>

type_synonym store = "pystr \<Rightarrow> document list"

text \<open>What the backing store answers to one operation: a result, or a failure with
  the message that the adapter propagates.\<close>

datatype 'a reply = Reply 'a | Failure pystr

fun str_of_status :: "proposal_status \<Rightarrow> pystr" where
  "str_of_status Draft = str ''draft''"
| "str_of_status Approved = str ''approved''"
| "str_of_status Sent = str ''sent''"
| "str_of_status Accepted = str ''accepted''"
| "str_of_status Rejected = str ''rejected''"

fun str_of_ai_status :: "proposal_ai_status \<Rightarrow> pystr" where
  "str_of_ai_status Ai_none = str ''none''"
| "str_of_ai_status Pending = str ''pending''"
| "str_of_ai_status Completed = str ''completed''"
| "str_of_ai_status Failed = str ''failed''"

fun str_of_channel :: "delivery_channel \<Rightarrow> pystr" where
  "str_of_channel Whatsapp = str ''whatsapp''"
| "str_of_channel Gmail = str ''gmail''"
| "str_of_channel Pdf = str ''pdf''"

definition item_record :: "ProposalItem \<Rightarrow> document" where
  "item_record it =
     [(str ''catalog_item_id'', opt_val (catalog_item_id it)),
      (str ''title'', VStr (title it)),
      (str ''description'', opt_val (description it)),
      (str ''quantity'', VNum (quantity it)),
      (str ''unit_price_kes'', VNum (unit_price_kes it))]"

definition proposal_record :: "Proposal \<Rightarrow> document" where
  "proposal_record p =
     [(str ''tenant_id'', VStr (Proposal.tenant_id p)),
      (str ''lead_id'', VStr (Proposal.lead_id p)),
      (str ''items'', VList (map (\<lambda>it. VDict (item_record it)) (Proposal.items p))),
      (str ''subtotal_kes'', VNum (subtotal_kes p)),
      (str ''tax_kes'', VNum (tax_kes p)),
      (str ''total_kes'', VNum (total_kes p)),
      (str ''status'', VStr (str_of_status (status p))),
      (str ''ai_status'', VStr (str_of_ai_status (ai_status p))),
      (str ''delivery_channels'', VList (map (\<lambda>c. VStr (str_of_channel c)) (delivery_channels p)))]"

fun record_of :: "store_arg \<Rightarrow> document" where
  "record_of (Dict d) = d"
| "record_of (Model p) = proposal_record p"

text \<open>
  Modelled from the spec: \<open>database.py\<close> (\<open>db\<close>, \<open>create_document\<close>, \<open>get_documents\<close>)
  is not among the sources. Section 4.2: \<open>insert(collection_name, record)\<close> persists
  the record and returns a newly generated identifier; it fails with
  \<open>StoreUnavailable\<close> if the backing connection was never established, or with
  \<open>StoreWriteError\<close> on a write-time failure. Section 6: a document is the validated
  record plus a store-generated id field. \<open>unavailable\<close> is the message of
  \<open>StoreUnavailable\<close>, which the spec does not give; the identifier is the one the
  store replies with.
\<close>

definition create_document ::
  "pystr \<Rightarrow> pystr reply \<Rightarrow> pystr \<Rightarrow> store_arg \<Rightarrow> store option
     \<Rightarrow> (exn + pystr) \<times> store option" where
  "create_document unavailable answer collection_name data db =
     (case db of
        None \<Rightarrow> (Inl (Exception unavailable), None)
      | Some st \<Rightarrow>
          (case answer of
             Failure m \<Rightarrow> (Inl (Exception m), Some st)
           | Reply new_id \<Rightarrow>
               (Inr new_id,
                Some (st(collection_name :=
                        st collection_name @ [record_of data @ [(str ''id'', VStr new_id)]])))))"

text \<open>
  Modelled from the spec: \<open>get_documents\<close> of the missing \<open>database.py\<close>. Section 4.2:
  \<open>query(collection_name, filter, limit)\<close> returns the records of the collection that
  satisfy the filter, in the store's order, and the limit bounds their number; it
  fails with \<open>StoreUnavailable\<close> or \<open>StoreReadError\<close> as the insert does. Section 4.3:
  the query is filtered strictly by \<open>tenant_id\<close>. A filter is satisfied by a document
  that holds each of its keys with the same value.
\<close>

definition matches :: "document \<Rightarrow> document \<Rightarrow> bool" where
  "matches flt d = list_all (\<lambda>(k, v). map_of d k = Some v) flt"

definition get_documents ::
  "pystr \<Rightarrow> unit reply \<Rightarrow> pystr \<Rightarrow> document \<Rightarrow> nat \<Rightarrow> store option
     \<Rightarrow> (exn + document list) \<times> store option" where
  "get_documents unavailable answer collection_name flt limit db =
     (case db of
        None \<Rightarrow> (Inl (Exception unavailable), None)
      | Some st \<Rightarrow>
          (case answer of
             Failure m \<Rightarrow> (Inl (Exception m), Some st)
           | Reply u \<Rightarrow> (Inr (take limit (filter (matches flt) (st collection_name))), Some st)))"

text \<open>
  Modelled from the spec: how the missing \<open>database.py\<close> turns a failure of the backing
  store into the failure it raises. Section 4.2: a write-time or read-time failure
  propagates the underlying message, truncated for safety; section 7: store errors
  propagate up unchanged except for message truncation. The spec gives no length:
  \<open>bound\<close> is the number of code points that are kept. \<open>Raises m\<close> is a failure of
  the backing store with the underlying message \<open>m\<close>.
\<close>

datatype 'a driver_outcome = Returns 'a | Raises pystr

fun adapter_reply :: "nat \<Rightarrow> 'a driver_outcome \<Rightarrow> 'a reply" where
  "adapter_reply bound (Returns x) = Reply x"
| "adapter_reply bound (Raises m) = Failure (take bound m)"

section \<open>Example inputs\<close>

text \<open>A valid lead.\<close>

definition lead_t1 :: LeadIn where
  "lead_t1 = \<lparr>LeadIn.tenant_id = str ''t1'', source = str ''web'', name = None,
              phone = None, email = None, company = None\<rparr>"

text \<open>A store whose leads belong to two tenants.\<close>

definition two_tenant_store :: store where
  "two_tenant_store =
     (\<lambda>c. [])(str ''lead'' :=
       [[(str ''tenant_id'', VStr (str ''t1'')), (str ''source'', VStr (str ''web''))],
        [(str ''tenant_id'', VStr (str ''t2'')), (str ''source'', VStr (str ''gmail''))],
        [(str ''tenant_id'', VStr (str ''t1'')), (str ''source'', VStr (str ''manual''))]])"

text \<open>A schema generation that fails for \<open>Lead\<close> only.\<close>

definition lead_schema_fails :: "model_class \<Rightarrow> exn + pyval" where
  "lead_schema_fails m =
     (if m = Lead_class then Inl (Exception (str ''boom'')) else Inr (VDict []))"

text \<open>Request bodies for POST /leads.\<close>

definition raw_t1 :: "pystr \<rightharpoonup> pyval" where
  "raw_t1 = [str ''tenant_id'' \<mapsto> VStr (str ''t1''), str ''source'' \<mapsto> VStr (str ''web'')]"

definition raw_t1_extra :: "pystr \<rightharpoonup> pyval" where
  "raw_t1_extra = raw_t1(str ''status'' \<mapsto> VStr (str ''won''),
                         str ''meta'' \<mapsto> VDict [(str ''ingest'', VStr (str ''import''))],
                         str ''score'' \<mapsto> VNum (Fin 99))"

definition raw_pigeon :: "pystr \<rightharpoonup> pyval" where
  "raw_pigeon = [str ''tenant_id'' \<mapsto> VStr (str ''t1''),
                 str ''source'' \<mapsto> VStr (str ''carrier_pigeon'')]"

section \<open>The subtotal in the words of the spec\<close>

text \<open>
  Section 8 of the spec: the subtotal is the sum over the items of quantity times unit
  price, where a missing quantity is 1 and a missing unit price is 0. The missing
  fields are filled by \<open>ProposalItem_init\<close>; the sum and the product are Python's.
\<close>

definition spec_subtotal :: "cpython \<Rightarrow> ProposalItem list \<Rightarrow> pyfloat" where
  "spec_subtotal v its = py_sum v (map (\<lambda>it. fmul (quantity it) (unit_price_kes it)) its)"

section \<open>Evaluation of the float operations\<close>

lemma fmul_2_1000: "fmul (Fin 2) (Fin 1000) = Fin 2000"
  by code_simp

lemma fmul_1_500: "fmul (Fin 1) (Fin 500) = Fin 500"
  by code_simp

lemma py_sum_2000_500_old: "py_sum Upto_3_11 [Fin 2000, Fin 500] = Fin 2500"
  by code_simp

lemma py_sum_2000_500_new: "py_sum From_3_12 [Fin 2000, Fin 500] = Fin 2500"
  by code_simp

lemma py_sum_2000_500: "py_sum v [Fin 2000, Fin 500] = Fin 2500"
  by (cases v) (simp_all only: py_sum_2000_500_old py_sum_2000_500_new)

lemma tax_of_2500: "tax_of (Fin 2500) = Fin 400"
  unfolding tax_of_def by code_simp

lemma total_of_2500_400: "total_of (Fin 2500) (Fin 400) = Fin 2900"
  unfolding total_of_def by code_simp

lemma subtotal_example:
  "subtotal_of v [ProposalItem_init c1 t1 d1 (Some (Fin 2)) (Some (Fin 1000)),
                  ProposalItem_init c2 t2 d2 (Some (Fin 1)) (Some (Fin 500))] = Fin 2500"
  by (simp add: subtotal_of_def ProposalItem_init_def py_or_def fmul_2_1000 fmul_1_500
        py_sum_2000_500 del: fmul.simps)

section \<open>Proposal totals\<close>

text \<open>
  C5. For the items \<open>{quantity: 2, unit_price_kes: 1000}\<close> and
  \<open>{quantity: 1, unit_price_kes: 500}\<close>, whatever their other fields, the tenant, the
  lead, the interpreter version and the store, \<open>create_proposal_draft\<close> hands a
  proposal with subtotal 2500, tax 400 and total 2900 to \<open>create_document\<close>, and
  returns these three totals when the insert succeeds.
\<close>

theorem C5_example_totals:
  "create_proposal_draft v cd
     \<lparr>ProposalDraftIn.tenant_id = t, lead_id = l,
      items = [ProposalItem_init c1 t1 d1 (Some (Fin 2)) (Some (Fin 1000)),
               ProposalItem_init c2 t2 d2 (Some (Fin 1)) (Some (Fin 500))]\<rparr> s =
   (case cd (str ''proposal'')
           (Model \<lparr>Proposal.tenant_id = t, lead_id = l,
                   items = [ProposalItem_init c1 t1 d1 (Some (Fin 2)) (Some (Fin 1000)),
                            ProposalItem_init c2 t2 d2 (Some (Fin 1)) (Some (Fin 500))],
                   subtotal_kes = Fin 2500, tax_kes = Fin 400, total_kes = Fin 2900,
                   status = Draft, ai_status = Pending, delivery_channels = [Pdf]\<rparr>) s of
      (Inr inserted_id, s') \<Rightarrow>
        (Inr (VDict [(str ''id'', VStr inserted_id),
                     (str ''status'', VStr (str ''draft_created'')),
                     (str ''totals'', VDict [(str ''subtotal'', VNum (Fin 2500)),
                                             (str ''tax'', VNum (Fin 400)),
                                             (str ''total'', VNum (Fin 2900))])]), s')
    | (Inl e, s') \<Rightarrow> (Inl (HTTPException 500 (str_of e)), s'))"
  unfolding create_proposal_draft_def Let_def
  by (simp only: ProposalDraftIn.simps subtotal_example tax_of_2500 total_of_2500_400)

section \<open>Diagnostics\<close>

text \<open>
  C9. Whatever the environment, the database handle and the answer of
  \<open>list_collection_names\<close>, the \<open>collections\<close> field of the response of GET /test holds
  at most 20 names.
\<close>

theorem C9_at_most_20_collections:
  "length (collections (test_database getenv list_collection_names db)) \<le> 20"
  by (simp add: test_database_def Let_def split: option.split sum.split)

text \<open>
  C6. When the connection is absent (\<open>db\<close> is \<open>None\<close>), GET /test returns a response
  whose \<open>database\<close> field is the text "Not Initialized" after the cross mark, with no
  connection and no collections; and \<open>create_lead\<close> and \<open>create_proposal_draft\<close>,
  run on the adapter of the spec, end in the HTTP error 500 that carries the message of
  the adapter's exception, and leave the store absent.
\<close>

theorem C6_store_absent:
  "database (test_database getenv list_collection_names None)
     = cross_mark @ str '' Not Initialized''
   \<and> connection_status (test_database getenv list_collection_names None)
     = str ''Not Connected''
   \<and> collections (test_database getenv list_collection_names None) = []
   \<and> create_lead (create_document unavailable answer) payload None
     = (Inl (HTTPException 500 unavailable), None)
   \<and> create_proposal_draft v (create_document unavailable answer) draft None
     = (Inl (HTTPException 500 unavailable), None)"
  by (simp add: test_database_def create_lead_def create_proposal_draft_def
        create_document_def Let_def)

section \<open>Store failures\<close>

text \<open>
  On the code, for any adapter: when the call that a handler makes raises \<open>e\<close>, the
  handler ends in the HTTP error 500 whose \<open>detail\<close> is \<open>str(e)\<close>, unchanged.
\<close>

lemma create_lead_raises:
  assumes "cd (str ''lead'')
             (Dict (dict_update (model_dump payload)
                      [(str ''status'', VStr (str ''new'')),
                       (str ''meta'', VDict [(str ''ingest'', VStr (str ''api''))])])) s
           = (Inl e, s')"
  shows "create_lead cd payload s = (Inl (HTTPException 500 (str_of e)), s')"
  using assms by (simp add: create_lead_def Let_def)

lemma create_proposal_draft_raises:
  assumes "cd (str ''proposal'')
             (Model \<lparr>Proposal.tenant_id = ProposalDraftIn.tenant_id draft,
                     lead_id = ProposalDraftIn.lead_id draft,
                     items = ProposalDraftIn.items draft,
                     subtotal_kes = subtotal_of v (ProposalDraftIn.items draft),
                     tax_kes = tax_of (subtotal_of v (ProposalDraftIn.items draft)),
                     total_kes = total_of (subtotal_of v (ProposalDraftIn.items draft))
                                   (tax_of (subtotal_of v (ProposalDraftIn.items draft))),
                     status = Draft, ai_status = Pending, delivery_channels = [Pdf]\<rparr>) s
           = (Inl e, s')"
  shows "create_proposal_draft v cd draft s = (Inl (HTTPException 500 (str_of e)), s')"
  using assms by (simp add: create_proposal_draft_def Let_def)

lemma list_leads_raises:
  assumes "gd (str ''lead'') [(str ''tenant_id'', VStr tenant)] 50 s = (Inl e, s')"
  shows "list_leads gd tenant s = (Inl (HTTPException 500 (str_of e)), s')"
  using assms by (simp add: list_leads_def)

lemma list_proposals_raises:
  assumes "gd (str ''proposal'') [(str ''tenant_id'', VStr tenant)] 50 s = (Inl e, s')"
  shows "list_proposals gd tenant s = (Inl (HTTPException 500 (str_of e)), s')"
  using assms by (simp add: list_proposals_def)

text \<open>
  C8. On the adapter of the spec, with a connected store: whenever the write or the
  read of the backing store fails with an underlying message \<open>m\<close>, each of POST /leads,
  POST /proposals/draft, GET /leads and GET /proposals ends in the HTTP error with
  status 500 whose \<open>detail\<close> is \<open>m\<close> cut to the adapter's bound, and the store is left
  as it was. The cut is the adapter's; the handlers pass the message of the adapter's
  exception on as it is.
\<close>

theorem C8_store_failure_truncated_message:
  "create_lead (create_document unavailable (adapter_reply bound (Raises m))) payload (Some st)
     = (Inl (HTTPException 500 (take bound m)), Some st)
   \<and> create_proposal_draft v (create_document unavailable (adapter_reply bound (Raises m)))
       draft (Some st)
     = (Inl (HTTPException 500 (take bound m)), Some st)
   \<and> list_leads (get_documents unavailable (adapter_reply bound (Raises m))) tenant (Some st)
     = (Inl (HTTPException 500 (take bound m)), Some st)
   \<and> list_proposals (get_documents unavailable (adapter_reply bound (Raises m))) tenant
       (Some st)
     = (Inl (HTTPException 500 (take bound m)), Some st)"
  by (simp add: create_lead_raises create_proposal_draft_raises list_leads_raises
        list_proposals_raises create_document_def get_documents_def)

section \<open>Listing by tenant\<close>

lemma str_eq_iff: "str a = str b \<longleftrightarrow> a = b"
proof
  assume "str a = str b"
  then have "map char_of (str a) = map char_of (str b)" by simp
  then show "a = b" by (simp add: str_def)
qed simp

lemma get_documents_result:
  assumes "get_documents unavailable answer c [(str ''tenant_id'', VStr tenant)] 50 db
             = (Inr docs, db')"
  shows "length docs \<le> 50
       \<and> (\<forall>d\<in>set docs. map_of d (str ''tenant_id'') = Some (VStr tenant))"
  using assms
  by (auto simp: get_documents_def matches_def split: option.splits reply.splits
        dest: in_set_takeD)

text \<open>
  C4. On the adapter of the spec, whatever GET /leads or GET /proposals returns for a
  tenant is a list of at most 50 documents, each of which holds that tenant in its
  \<open>tenant_id\<close> field.
\<close>

theorem C4_listing_scoped_and_bounded:
  assumes "list_leads (get_documents unavailable answer) tenant db = (Inr docs, db')
         \<or> list_proposals (get_documents unavailable answer) tenant db = (Inr docs, db')"
  shows "length docs \<le> 50
       \<and> (\<forall>d\<in>set docs. map_of d (str ''tenant_id'') = Some (VStr tenant))"
proof -
  from assms obtain c where
    "get_documents unavailable answer c [(str ''tenant_id'', VStr tenant)] 50 db
       = (Inr docs, db')"
    by (auto simp: list_leads_def list_proposals_def split: prod.splits sum.splits)
  then show ?thesis by (rule get_documents_result)
qed

theorem C4_witness:
  "list_leads (get_documents [] (Reply ())) (str ''t1'') (Some two_tenant_store)
     = (Inr [[(str ''tenant_id'', VStr (str ''t1'')), (str ''source'', VStr (str ''web''))],
             [(str ''tenant_id'', VStr (str ''t1'')), (str ''source'', VStr (str ''manual''))]],
        Some two_tenant_store)
   \<and> length [[(str ''tenant_id'', VStr (str ''t1'')), (str ''source'', VStr (str ''web''))],
             [(str ''tenant_id'', VStr (str ''t1'')), (str ''source'', VStr (str ''manual''))]]
       \<le> 50
   \<and> map_of [(str ''tenant_id'', VStr (str ''t1'')), (str ''source'', VStr (str ''web''))]
        (str ''tenant_id'') = Some (VStr (str ''t1''))
   \<and> map_of [(str ''tenant_id'', VStr (str ''t1'')), (str ''source'', VStr (str ''manual''))]
        (str ''tenant_id'') = Some (VStr (str ''t1''))"
proof -
  have run: "list_leads (get_documents [] (Reply ())) (str ''t1'') (Some two_tenant_store)
     = (Inr [[(str ''tenant_id'', VStr (str ''t1'')), (str ''source'', VStr (str ''web''))],
             [(str ''tenant_id'', VStr (str ''t1'')), (str ''source'', VStr (str ''manual''))]],
        Some two_tenant_store)"
    by (simp add: list_leads_def get_documents_def matches_def two_tenant_store_def str_eq_iff)
  from C4_listing_scoped_and_bounded [OF disjI1, OF run] run show ?thesis by simp
qed

section \<open>Schema discovery\<close>

lemma update_fresh: "k \<notin> fst ` set al \<Longrightarrow> AList.update k v al = al @ [(k, v)]"
  by (induction al) auto

lemma foldl_update_fresh:
  "distinct (map fst xs) \<Longrightarrow> fst ` set acc \<inter> fst ` set xs = {} \<Longrightarrow>
   foldl (\<lambda>out (k, m). AList.update k (f m) out) acc xs = acc @ map (\<lambda>(k, m). (k, f m)) xs"
proof (induction xs arbitrary: acc)
  case Nil
  then show ?case by simp
next
  case (Cons x xs)
  obtain k m where x: "x = (k, m)" by (cases x)
  from Cons.prems have fresh: "k \<notin> fst ` set acc" by (auto simp: x)
  have disj: "fst ` set (acc @ [(k, f m)]) \<inter> fst ` set xs = {}"
    using Cons.prems by (auto simp: x)
  from Cons.prems have "distinct (map fst xs)" by simp
  from Cons.IH [OF this disj] show ?case
    by (simp add: x update_fresh [OF fresh])
qed

lemma distinct_SCHEMA_MODELS: "distinct (map fst SCHEMA_MODELS)"
  by (simp add: SCHEMA_MODELS_def str_eq_iff)

lemma get_schema_eq:
  "get_schema mjs =
     map (\<lambda>(name, model). (name, case mjs model of Inr example \<Rightarrow> example | Inl e \<Rightarrow> error_marker))
       SCHEMA_MODELS"
  unfolding get_schema_def
  using foldl_update_fresh [OF distinct_SCHEMA_MODELS, of "[]"
      "\<lambda>model. case mjs model of Inr example \<Rightarrow> example | Inl e \<Rightarrow> error_marker"]
  by simp

lemma map_of_map_values:
  "map_of (map (\<lambda>(k, m). (k, g m)) xs) k' = map_option g (map_of xs k')"
  by (induction xs) auto

text \<open>
  C7. For every kind of the registry, the entry of GET /schema for that kind is the
  schema of its model when the generation succeeds and the error marker when it
  raises: an entry is decided by the generation for its own model alone, and every
  kind of the registry has its entry, whichever generations fail.
\<close>

theorem C7_schema_entries_independent:
  assumes "(kind, model) \<in> set SCHEMA_MODELS"
  shows "map_of (get_schema mjs) kind
           = Some (case mjs model of Inr example \<Rightarrow> example | Inl e \<Rightarrow> error_marker)
       \<and> map fst (get_schema mjs) = map fst SCHEMA_MODELS"
proof -
  have "map_of SCHEMA_MODELS kind = Some model"
    using assms distinct_SCHEMA_MODELS by (rule map_of_is_SomeI [rotated])
  then show ?thesis
    by (auto simp: get_schema_eq map_of_map_values)
qed

theorem C7_witness:
  "(str ''lead'', Lead_class) \<in> set SCHEMA_MODELS
   \<and> (str ''proposal'', Proposal_class) \<in> set SCHEMA_MODELS
   \<and> map_of (get_schema lead_schema_fails) (str ''lead'') = Some error_marker
   \<and> map_of (get_schema lead_schema_fails) (str ''proposal'') = Some (VDict [])"
proof -
  have 1: "(str ''lead'', Lead_class) \<in> set SCHEMA_MODELS"
    and 2: "(str ''proposal'', Proposal_class) \<in> set SCHEMA_MODELS"
    by (simp_all add: SCHEMA_MODELS_def)
  from C7_schema_entries_independent [OF 1, of lead_schema_fails]
       C7_schema_entries_independent [OF 2, of lead_schema_fails] 1 2
  show ?thesis by (simp add: lead_schema_fails_def)
qed

section \<open>Lead intake\<close>

lemma LeadIn_validate_cong:
  assumes "\<forall>k\<in>LeadIn_fields. raw' k = raw k"
  shows "LeadIn_validate raw' = LeadIn_validate raw"
  using assms by (simp add: LeadIn_validate_def LeadIn_fields_def required_str_def optional_str_def)

lemma lead_dict_eq:
  "dict_update (model_dump payload)
     [(str ''status'', VStr (str ''new'')),
      (str ''meta'', VDict [(str ''ingest'', VStr (str ''api''))])]
   = model_dump payload @
     [(str ''status'', VStr (str ''new'')),
      (str ''meta'', VDict [(str ''ingest'', VStr (str ''api''))])]"
  by (simp add: dict_update_def model_dump_def str_eq_iff)

lemma create_lead_hands_over:
  "create_lead cd payload s =
     (case cd (str ''lead'')
             (Dict (model_dump payload @
                [(str ''status'', VStr (str ''new'')),
                 (str ''meta'', VDict [(str ''ingest'', VStr (str ''api''))])])) s of
        (Inr inserted_id, s') \<Rightarrow>
          (Inr (VDict [(str ''id'', VStr inserted_id),
                       (str ''status'', VStr (str ''created''))]), s')
      | (Inl e, s') \<Rightarrow> (Inl (HTTPException 500 (str_of e)), s'))"
  by (simp add: create_lead_def Let_def lead_dict_eq)

lemma map_of_lead_status:
  "map_of (model_dump payload @
     [(str ''status'', VStr (str ''new'')),
      (str ''meta'', VDict [(str ''ingest'', VStr (str ''api''))])] @ extra) (str ''status'')
   = Some (VStr (str ''new''))"
  by (simp add: model_dump_def str_eq_iff)

lemma map_of_lead_meta:
  "map_of (model_dump payload @
     [(str ''status'', VStr (str ''new'')),
      (str ''meta'', VDict [(str ''ingest'', VStr (str ''api''))])] @ extra) (str ''meta'')
   = Some (VDict [(str ''ingest'', VStr (str ''api''))])"
  by (simp add: model_dump_def str_eq_iff)

text \<open>
  C2. Take a body that \<open>LeadIn\<close> accepts, and any body that agrees with it on the six
  fields of \<open>LeadIn\<close>, whatever else it holds (a \<open>status\<close>, a \<open>meta\<close>, unknown keys).
  The second body is answered exactly as the first, with the same effect on the store,
  whatever the adapter: what it holds beyond the six fields is ignored. The \<open>dict\<close>
  that the handler passes to \<open>create_document\<close> for the collection "lead" holds the six
  fields of the validated payload, \<open>status\<close> "new" and \<open>meta\<close> \<open>{ingest: "api"}\<close>, and
  nothing else. On the adapter of the spec, when the insert succeeds, that \<open>dict\<close> with
  the id field is the document added to the collection, so the stored \<open>status\<close> is
  "new" and the stored \<open>meta\<close> is \<open>{ingest: "api"}\<close>.
\<close>

theorem C2_lead_status_and_meta_forced:
  assumes "LeadIn_validate raw = Inr payload" and "\<forall>k\<in>LeadIn_fields. raw' k = raw k"
  shows "(\<forall>cd s. post_leads cd raw' s = post_leads cd raw s)
       \<and> (\<forall>cd s. post_leads cd raw' s
              = (case cd (str ''lead'') (Dict
         [(str ''tenant_id'', VStr (LeadIn.tenant_id payload)),
          (str ''source'', VStr (source payload)),
          (str ''name'', opt_val (name payload)),
          (str ''phone'', opt_val (phone payload)),
          (str ''email'', opt_val (email payload)),
          (str ''company'', opt_val (company payload)),
          (str ''status'', VStr (str ''new'')),
          (str ''meta'', VDict [(str ''ingest'', VStr (str ''api''))])]) s of
                   (Inr inserted_id, s') \<Rightarrow>
                     (Inr (Inr (VDict [(str ''id'', VStr inserted_id),
                                       (str ''status'', VStr (str ''created''))])), s')
                 | (Inl e, s') \<Rightarrow> (Inr (Inl (HTTPException 500 (str_of e))), s')))
       \<and> post_leads (create_document unavailable (Reply new_id)) raw' (Some st)
           = (Inr (Inr (VDict [(str ''id'', VStr new_id),
                               (str ''status'', VStr (str ''created''))])),
              Some (st(str ''lead'' := st (str ''lead'') @ [
         [(str ''tenant_id'', VStr (LeadIn.tenant_id payload)),
          (str ''source'', VStr (source payload)),
          (str ''name'', opt_val (name payload)),
          (str ''phone'', opt_val (phone payload)),
          (str ''email'', opt_val (email payload)),
          (str ''company'', opt_val (company payload)),
          (str ''status'', VStr (str ''new'')),
          (str ''meta'', VDict [(str ''ingest'', VStr (str ''api''))])] @ [(str ''id'', VStr new_id)]])))
       \<and> map_of (
         [(str ''tenant_id'', VStr (LeadIn.tenant_id payload)),
          (str ''source'', VStr (source payload)),
          (str ''name'', opt_val (name payload)),
          (str ''phone'', opt_val (phone payload)),
          (str ''email'', opt_val (email payload)),
          (str ''company'', opt_val (company payload)),
          (str ''status'', VStr (str ''new'')),
          (str ''meta'', VDict [(str ''ingest'', VStr (str ''api''))])] @ [(str ''id'', VStr new_id)]) (str ''status'') = Some (VStr (str ''new''))
       \<and> map_of (
         [(str ''tenant_id'', VStr (LeadIn.tenant_id payload)),
          (str ''source'', VStr (source payload)),
          (str ''name'', opt_val (name payload)),
          (str ''phone'', opt_val (phone payload)),
          (str ''email'', opt_val (email payload)),
          (str ''company'', opt_val (company payload)),
          (str ''status'', VStr (str ''new'')),
          (str ''meta'', VDict [(str ''ingest'', VStr (str ''api''))])] @ [(str ''id'', VStr new_id)]) (str ''meta'')
           = Some (VDict [(str ''ingest'', VStr (str ''api''))])"
proof -
  have valid: "LeadIn_validate raw' = Inr payload"
    using LeadIn_validate_cong [OF assms(2)] assms(1) by simp
  have same: "\<forall>cd s. post_leads cd raw' s = post_leads cd raw s"
    using LeadIn_validate_cong [OF assms(2)] by (simp add: post_leads_def)
  have handed: "\<forall>cd s. post_leads cd raw' s
              = (case cd (str ''lead'') (Dict
         [(str ''tenant_id'', VStr (LeadIn.tenant_id payload)),
          (str ''source'', VStr (source payload)),
          (str ''name'', opt_val (name payload)),
          (str ''phone'', opt_val (phone payload)),
          (str ''email'', opt_val (email payload)),
          (str ''company'', opt_val (company payload)),
          (str ''status'', VStr (str ''new'')),
          (str ''meta'', VDict [(str ''ingest'', VStr (str ''api''))])]) s of
                   (Inr inserted_id, s') \<Rightarrow>
                     (Inr (Inr (VDict [(str ''id'', VStr inserted_id),
                                       (str ''status'', VStr (str ''created''))])), s')
                 | (Inl e, s') \<Rightarrow> (Inr (Inl (HTTPException 500 (str_of e))), s'))"
    using valid
    by (simp add: post_leads_def create_lead_hands_over model_dump_def
          split: prod.split sum.split)
  have stored: "post_leads (create_document unavailable (Reply new_id)) raw' (Some st)
           = (Inr (Inr (VDict [(str ''id'', VStr new_id),
                               (str ''status'', VStr (str ''created''))])),
              Some (st(str ''lead'' := st (str ''lead'') @ [
         [(str ''tenant_id'', VStr (LeadIn.tenant_id payload)),
          (str ''source'', VStr (source payload)),
          (str ''name'', opt_val (name payload)),
          (str ''phone'', opt_val (phone payload)),
          (str ''email'', opt_val (email payload)),
          (str ''company'', opt_val (company payload)),
          (str ''status'', VStr (str ''new'')),
          (str ''meta'', VDict [(str ''ingest'', VStr (str ''api''))])] @ [(str ''id'', VStr new_id)]])))"
    using valid
    by (simp add: post_leads_def create_lead_hands_over create_document_def model_dump_def)
  have status: "map_of (
         [(str ''tenant_id'', VStr (LeadIn.tenant_id payload)),
          (str ''source'', VStr (source payload)),
          (str ''name'', opt_val (name payload)),
          (str ''phone'', opt_val (phone payload)),
          (str ''email'', opt_val (email payload)),
          (str ''company'', opt_val (company payload)),
          (str ''status'', VStr (str ''new'')),
          (str ''meta'', VDict [(str ''ingest'', VStr (str ''api''))])] @ [(str ''id'', VStr new_id)]) (str ''status'') = Some (VStr (str ''new''))"
    by (simp add: str_eq_iff)
  have meta: "map_of (
         [(str ''tenant_id'', VStr (LeadIn.tenant_id payload)),
          (str ''source'', VStr (source payload)),
          (str ''name'', opt_val (name payload)),
          (str ''phone'', opt_val (phone payload)),
          (str ''email'', opt_val (email payload)),
          (str ''company'', opt_val (company payload)),
          (str ''status'', VStr (str ''new'')),
          (str ''meta'', VDict [(str ''ingest'', VStr (str ''api''))])] @ [(str ''id'', VStr new_id)]) (str ''meta'')
           = Some (VDict [(str ''ingest'', VStr (str ''api''))])"
    by (simp add: str_eq_iff)
  from same handed stored status meta show ?thesis by (intro conjI)
qed

lemma validate_raw_t1: "LeadIn_validate raw_t1 = Inr lead_t1"
  by (simp add: LeadIn_validate_def required_str_def optional_str_def and_then_def raw_t1_def
        lead_t1_def str_eq_iff)

lemma raw_t1_extra_agrees: "\<forall>k\<in>LeadIn_fields. raw_t1_extra k = raw_t1 k"
  by (simp add: LeadIn_fields_def raw_t1_extra_def str_eq_iff)

theorem C2_witness:
  "LeadIn_validate raw_t1 = Inr lead_t1
   \<and> raw_t1_extra (str ''tenant_id'') = raw_t1 (str ''tenant_id'')
   \<and> raw_t1_extra (str ''source'') = raw_t1 (str ''source'')
   \<and> raw_t1_extra (str ''name'') = raw_t1 (str ''name'')
   \<and> raw_t1_extra (str ''phone'') = raw_t1 (str ''phone'')
   \<and> raw_t1_extra (str ''email'') = raw_t1 (str ''email'')
   \<and> raw_t1_extra (str ''company'') = raw_t1 (str ''company'')
   \<and> raw_t1_extra (str ''status'') = Some (VStr (str ''won''))
   \<and> raw_t1_extra (str ''score'') = Some (VNum (Fin 99))
   \<and> post_leads (create_document [] (Reply (str ''id1''))) raw_t1_extra (Some (\<lambda>c. []))
     = post_leads (create_document [] (Reply (str ''id1''))) raw_t1 (Some (\<lambda>c. []))
   \<and> post_leads (create_document [] (Reply (str ''id1''))) raw_t1_extra (Some (\<lambda>c. []))
     = (Inr (Inr (VDict [(str ''id'', VStr (str ''id1'')),
                         (str ''status'', VStr (str ''created''))])),
        Some ((\<lambda>c. [])(str ''lead'' := [
                  [(str ''tenant_id'', VStr (str ''t1'')),
                   (str ''source'', VStr (str ''web'')),
                   (str ''name'', VNone), (str ''phone'', VNone), (str ''email'', VNone),
                   (str ''company'', VNone),
                   (str ''status'', VStr (str ''new'')),
                   (str ''meta'', VDict [(str ''ingest'', VStr (str ''api''))]),
                   (str ''id'', VStr (str ''id1''))]])))
   \<and> map_of [(str ''tenant_id'', VStr (str ''t1'')),
                   (str ''source'', VStr (str ''web'')),
                   (str ''name'', VNone), (str ''phone'', VNone), (str ''email'', VNone),
                   (str ''company'', VNone),
                   (str ''status'', VStr (str ''new'')),
                   (str ''meta'', VDict [(str ''ingest'', VStr (str ''api''))]),
                   (str ''id'', VStr (str ''id1''))] (str ''status'') = Some (VStr (str ''new''))"
proof -
  have supplied: "raw_t1_extra (str ''status'') = Some (VStr (str ''won''))
      \<and> raw_t1_extra (str ''score'') = Some (VNum (Fin 99))"
    by (simp add: raw_t1_extra_def str_eq_iff)
  have agrees: "raw_t1_extra (str ''tenant_id'') = raw_t1 (str ''tenant_id'')
     \<and> raw_t1_extra (str ''source'') = raw_t1 (str ''source'')
     \<and> raw_t1_extra (str ''name'') = raw_t1 (str ''name'')
     \<and> raw_t1_extra (str ''phone'') = raw_t1 (str ''phone'')
     \<and> raw_t1_extra (str ''email'') = raw_t1 (str ''email'')
     \<and> raw_t1_extra (str ''company'') = raw_t1 (str ''company'')"
    using raw_t1_extra_agrees by (simp add: LeadIn_fields_def)
  note main = C2_lead_status_and_meta_forced [OF validate_raw_t1 raw_t1_extra_agrees,
      of "[]" "str ''id1''" "\<lambda>c. []"]
  have same:
    "post_leads (create_document [] (Reply (str ''id1''))) raw_t1_extra (Some (\<lambda>c. []))
     = post_leads (create_document [] (Reply (str ''id1''))) raw_t1 (Some (\<lambda>c. []))"
    by (rule conjunct1 [OF main, rule_format])
  from main [THEN conjunct2, THEN conjunct2, THEN conjunct1] have stored:
    "post_leads (create_document [] (Reply (str ''id1''))) raw_t1_extra (Some (\<lambda>c. []))
     = (Inr (Inr (VDict [(str ''id'', VStr (str ''id1'')),
                         (str ''status'', VStr (str ''created''))])),
        Some ((\<lambda>c. [])(str ''lead'' := [
                  [(str ''tenant_id'', VStr (str ''t1'')),
                   (str ''source'', VStr (str ''web'')),
                   (str ''name'', VNone), (str ''phone'', VNone), (str ''email'', VNone),
                   (str ''company'', VNone),
                   (str ''status'', VStr (str ''new'')),
                   (str ''meta'', VDict [(str ''ingest'', VStr (str ''api''))]),
                   (str ''id'', VStr (str ''id1''))]])))"
    by (simp add: lead_t1_def)
  from main [THEN conjunct2, THEN conjunct2, THEN conjunct2, THEN conjunct1] have status:
    "map_of [(str ''tenant_id'', VStr (str ''t1'')),
                   (str ''source'', VStr (str ''web'')),
                   (str ''name'', VNone), (str ''phone'', VNone), (str ''email'', VNone),
                   (str ''company'', VNone),
                   (str ''status'', VStr (str ''new'')),
                   (str ''meta'', VDict [(str ''ingest'', VStr (str ''api''))]),
                   (str ''id'', VStr (str ''id1''))] (str ''status'') = Some (VStr (str ''new''))"
    by (simp add: lead_t1_def)
  from validate_raw_t1 agrees supplied same stored status show ?thesis by blast
qed

text \<open>
  C3 does not hold for POST /leads: \<open>LeadIn\<close> declares \<open>source\<close> as a plain string and
  the handler never builds a \<open>Lead\<close>, so the closed set of \<open>Lead.source\<close> is not
  checked. The body \<open>{tenant_id: "t1", source: "carrier_pigeon"}\<close> is accepted and its
  document is added to the collection "lead".
\<close>

theorem C3_lead_source_outside_enum_stored:
  "str ''carrier_pigeon'' \<notin> set Lead_source_literal
   \<and> post_leads (create_document unavailable (Reply new_id)) raw_pigeon (Some st)
     = (Inr (Inr (VDict [(str ''id'', VStr new_id), (str ''status'', VStr (str ''created''))])),
        Some (st(str ''lead'' := st (str ''lead'') @
          [[(str ''tenant_id'', VStr (str ''t1'')),
            (str ''source'', VStr (str ''carrier_pigeon'')),
            (str ''name'', VNone), (str ''phone'', VNone), (str ''email'', VNone),
            (str ''company'', VNone),
            (str ''status'', VStr (str ''new'')),
            (str ''meta'', VDict [(str ''ingest'', VStr (str ''api''))]),
            (str ''id'', VStr new_id)]])))"
  by (simp add: Lead_source_literal_def post_leads_def create_lead_hands_over create_document_def
        LeadIn_validate_def required_str_def optional_str_def and_then_def raw_pigeon_def
        model_dump_def str_eq_iff)

text \<open>A body that fails validation leaves the store as it is.\<close>

lemma post_leads_rejected_no_write:
  "LeadIn_validate raw = Inl err \<Longrightarrow> post_leads cd raw s = (Inl err, s)"
  by (simp add: post_leads_def)

section \<open>Proposal totals in general\<close>

lemma fmul_1_neg100: "fmul (Fin 1) (Fin (- 100)) = Fin (- 100)" by code_simp
lemma py_sum_neg100_old: "py_sum Upto_3_11 [Fin (- 100)] = Fin (- 100)" by code_simp
lemma py_sum_neg100_new: "py_sum From_3_12 [Fin (- 100)] = Fin (- 100)" by code_simp
lemma py_sum_neg100: "py_sum v [Fin (- 100)] = Fin (- 100)"
  by (cases v) (simp_all only: py_sum_neg100_old py_sum_neg100_new)
lemma tax_of_neg100: "tax_of (Fin (- 100)) = Fin (- 16)"
  unfolding tax_of_def by code_simp
lemma total_of_neg100: "total_of (Fin (- 100)) (Fin (- 16)) = Fin (- 116)"
  unfolding total_of_def by code_simp

lemma fmul_1_100: "fmul (Fin 1) (Fin 100) = Fin 100" by code_simp
lemma fmul_0_100: "fmul (Fin 0) (Fin 100) = Fin 0" by code_simp
lemma py_sum_100_old: "py_sum Upto_3_11 [Fin 100] = Fin 100" by code_simp
lemma py_sum_100_new: "py_sum From_3_12 [Fin 100] = Fin 100" by code_simp
lemma py_sum_100: "py_sum v [Fin 100] = Fin 100"
  by (cases v) (simp_all only: py_sum_100_old py_sum_100_new)
lemma py_sum_0_old: "py_sum Upto_3_11 [Fin 0] = Fin 0" by code_simp
lemma py_sum_0_new: "py_sum From_3_12 [Fin 0] = Fin 0" by code_simp
lemma py_sum_0: "py_sum v [Fin 0] = Fin 0"
  by (cases v) (simp_all only: py_sum_0_old py_sum_0_new)
lemma tax_of_100: "tax_of (Fin 100) = Fin 16"
  unfolding tax_of_def by code_simp
lemma total_of_100: "total_of (Fin 100) (Fin 16) = Fin 116"
  unfolding total_of_def by code_simp

text \<open>
  Where no quantity is zero, the subtotal of the code is the subtotal of the spec:
  \<open>or 0\<close> never changes a unit price, and \<open>or 1\<close> changes a quantity of zero only.
\<close>

lemma py_or_price: "py_or u (Fin 0) = u"
  by (cases u) (simp_all add: py_or_def)

lemma py_or_truthy: "truthy x \<Longrightarrow> py_or x d = x"
  by (simp add: py_or_def)

lemma subtotal_of_nonzero_quantities:
  assumes "\<forall>it\<in>set its. truthy (quantity it)"
  shows "subtotal_of v its = spec_subtotal v its"
proof -
  have "map (\<lambda>it. fmul (py_or (quantity it) (Fin 1)) (py_or (unit_price_kes it) (Fin 0))) its
      = map (\<lambda>it. fmul (quantity it) (unit_price_kes it)) its"
    using assms by (simp add: py_or_price py_or_truthy)
  then show ?thesis unfolding subtotal_of_def spec_subtotal_def by (rule arg_cong)
qed

lemma subtotal_negative_example:
  "subtotal_of v [ProposalItem_init c t d None (Some (Fin (- 100)))] = Fin (- 100)"
  by (simp add: subtotal_of_def ProposalItem_init_def py_or_def fmul_1_neg100 py_sum_neg100
        del: fmul.simps)

lemma negative_proposal_record:
  "proposal_record
     \<lparr>Proposal.tenant_id = tn, lead_id = l,
      items = [ProposalItem_init c t d None (Some (Fin (- 100)))],
      subtotal_kes = Fin (- 100), tax_kes = Fin (- 16), total_kes = Fin (- 116),
      status = Draft, ai_status = Pending, delivery_channels = [Pdf]\<rparr>
   = [(str ''tenant_id'', VStr tn),
      (str ''lead_id'', VStr l),
      (str ''items'',
         VList [VDict [(str ''catalog_item_id'', opt_val c),
                       (str ''title'', VStr t),
                       (str ''description'', opt_val d),
                       (str ''quantity'', VNum (Fin 1)),
                       (str ''unit_price_kes'', VNum (Fin (- 100)))]]),
      (str ''subtotal_kes'', VNum (Fin (- 100))),
      (str ''tax_kes'', VNum (Fin (- 16))),
      (str ''total_kes'', VNum (Fin (- 116))),
      (str ''status'', VStr (str ''draft'')),
      (str ''ai_status'', VStr (str ''pending'')),
      (str ''delivery_channels'', VList [VStr (str ''pdf'')])]"
  by (simp add: proposal_record_def item_record_def ProposalItem_init_def)

text \<open>
  C10. \<open>ProposalItem\<close> takes a negative \<open>unit_price_kes\<close> as it is. For one item with
  the default quantity and the unit price -100, \<open>create_proposal_draft\<close> passes a
  proposal with the totals -100, -16 and -116 to \<open>create_document\<close> and returns them
  when the insert succeeds, whatever the adapter; on the adapter of the spec, with a
  connected store, it succeeds and the document added to the collection "proposal"
  holds \<open>subtotal_kes\<close> -100, \<open>tax_kes\<close> -16 and \<open>total_kes\<close> -116.
\<close>

theorem C10_negative_totals:
  "unit_price_kes (ProposalItem_init c t d None (Some (Fin (- 100)))) = Fin (- 100)
   \<and> (\<forall>cd s. create_proposal_draft v cd
       \<lparr>ProposalDraftIn.tenant_id = tn, lead_id = l,
        items = [ProposalItem_init c t d None (Some (Fin (- 100)))]\<rparr> s
     = (case cd (str ''proposal'')
             (Model \<lparr>Proposal.tenant_id = tn, lead_id = l,
                     items = [ProposalItem_init c t d None (Some (Fin (- 100)))],
                     subtotal_kes = Fin (- 100), tax_kes = Fin (- 16),
                     total_kes = Fin (- 116),
                     status = Draft, ai_status = Pending, delivery_channels = [Pdf]\<rparr>) s of
          (Inr inserted_id, s') \<Rightarrow>
            (Inr (VDict [(str ''id'', VStr inserted_id),
                         (str ''status'', VStr (str ''draft_created'')),
                         (str ''totals'', VDict [(str ''subtotal'', VNum (Fin (- 100))),
                                                 (str ''tax'', VNum (Fin (- 16))),
                                                 (str ''total'', VNum (Fin (- 116)))])]), s')
        | (Inl e, s') \<Rightarrow> (Inl (HTTPException 500 (str_of e)), s')))
   \<and> create_proposal_draft v (create_document unavailable (Reply new_id))
       \<lparr>ProposalDraftIn.tenant_id = tn, lead_id = l,
        items = [ProposalItem_init c t d None (Some (Fin (- 100)))]\<rparr> (Some st)
     = (Inr (VDict [(str ''id'', VStr new_id),
                    (str ''status'', VStr (str ''draft_created'')),
                    (str ''totals'', VDict [(str ''subtotal'', VNum (Fin (- 100))),
                                            (str ''tax'', VNum (Fin (- 16))),
                                            (str ''total'', VNum (Fin (- 116)))])]),
        Some (st(str ''proposal'' := st (str ''proposal'') @
          [[(str ''tenant_id'', VStr tn),
            (str ''lead_id'', VStr l),
            (str ''items'',
               VList [VDict [(str ''catalog_item_id'', opt_val c),
                             (str ''title'', VStr t),
                             (str ''description'', opt_val d),
                             (str ''quantity'', VNum (Fin 1)),
                             (str ''unit_price_kes'', VNum (Fin (- 100)))]]),
            (str ''subtotal_kes'', VNum (Fin (- 100))),
            (str ''tax_kes'', VNum (Fin (- 16))),
            (str ''total_kes'', VNum (Fin (- 116))),
            (str ''status'', VStr (str ''draft'')),
            (str ''ai_status'', VStr (str ''pending'')),
            (str ''delivery_channels'', VList [VStr (str ''pdf'')]),
            (str ''id'', VStr new_id)]])))"
proof (intro conjI allI)
  show "unit_price_kes (ProposalItem_init c t d None (Some (Fin (- 100)))) = Fin (- 100)"
    by (simp add: ProposalItem_init_def)
next
  fix cd :: "'s create_document_fn" and s :: 's
  show "create_proposal_draft v cd
       \<lparr>ProposalDraftIn.tenant_id = tn, lead_id = l,
        items = [ProposalItem_init c t d None (Some (Fin (- 100)))]\<rparr> s
     = (case cd (str ''proposal'')
             (Model \<lparr>Proposal.tenant_id = tn, lead_id = l,
                     items = [ProposalItem_init c t d None (Some (Fin (- 100)))],
                     subtotal_kes = Fin (- 100), tax_kes = Fin (- 16),
                     total_kes = Fin (- 116),
                     status = Draft, ai_status = Pending, delivery_channels = [Pdf]\<rparr>) s of
          (Inr inserted_id, s') \<Rightarrow>
            (Inr (VDict [(str ''id'', VStr inserted_id),
                         (str ''status'', VStr (str ''draft_created'')),
                         (str ''totals'', VDict [(str ''subtotal'', VNum (Fin (- 100))),
                                                 (str ''tax'', VNum (Fin (- 16))),
                                                 (str ''total'', VNum (Fin (- 116)))])]), s')
        | (Inl e, s') \<Rightarrow> (Inl (HTTPException 500 (str_of e)), s'))"
    unfolding create_proposal_draft_def Let_def
    by (simp only: ProposalDraftIn.simps subtotal_negative_example tax_of_neg100
          total_of_neg100)
next
  show "create_proposal_draft v (create_document unavailable (Reply new_id))
       \<lparr>ProposalDraftIn.tenant_id = tn, lead_id = l,
        items = [ProposalItem_init c t d None (Some (Fin (- 100)))]\<rparr> (Some st)
     = (Inr (VDict [(str ''id'', VStr new_id),
                    (str ''status'', VStr (str ''draft_created'')),
                    (str ''totals'', VDict [(str ''subtotal'', VNum (Fin (- 100))),
                                            (str ''tax'', VNum (Fin (- 16))),
                                            (str ''total'', VNum (Fin (- 116)))])]),
        Some (st(str ''proposal'' := st (str ''proposal'') @
          [[(str ''tenant_id'', VStr tn),
            (str ''lead_id'', VStr l),
            (str ''items'',
               VList [VDict [(str ''catalog_item_id'', opt_val c),
                             (str ''title'', VStr t),
                             (str ''description'', opt_val d),
                             (str ''quantity'', VNum (Fin 1)),
                             (str ''unit_price_kes'', VNum (Fin (- 100)))]]),
            (str ''subtotal_kes'', VNum (Fin (- 100))),
            (str ''tax_kes'', VNum (Fin (- 16))),
            (str ''total_kes'', VNum (Fin (- 116))),
            (str ''status'', VStr (str ''draft'')),
            (str ''ai_status'', VStr (str ''pending'')),
            (str ''delivery_channels'', VList [VStr (str ''pdf'')]),
            (str ''id'', VStr new_id)]])))"
    unfolding create_proposal_draft_def Let_def
    by (simp add: subtotal_negative_example tax_of_neg100 total_of_neg100 create_document_def
          negative_proposal_record)
qed

lemma subtotal_zero_quantity:
  "subtotal_of v [ProposalItem_init c t d (Some (Fin 0)) (Some (Fin 100))] = Fin 100"
  by (simp add: subtotal_of_def ProposalItem_init_def py_or_def fmul_1_100 py_sum_100
        del: fmul.simps)

lemma spec_subtotal_zero_quantity:
  "spec_subtotal v [ProposalItem_init c t d (Some (Fin 0)) (Some (Fin 100))] = Fin 0"
  by (simp add: spec_subtotal_def ProposalItem_init_def fmul_0_100 py_sum_0
        del: fmul.simps)

text \<open>
  C1 fails for an item whose quantity is given as 0: for \<open>{quantity: 0,
  unit_price_kes: 100}\<close> the subtotal of the spec is 0, while \<open>create_proposal_draft\<close>
  counts the quantity as 1 and works with subtotal 100, tax 16 and total 116.
\<close>

theorem C1_zero_quantity_counted_as_one:
  "spec_subtotal v [ProposalItem_init c t d (Some (Fin 0)) (Some (Fin 100))] = Fin 0
   \<and> create_proposal_draft v cd
       \<lparr>ProposalDraftIn.tenant_id = tn, lead_id = l,
        items = [ProposalItem_init c t d (Some (Fin 0)) (Some (Fin 100))]\<rparr> s
     = (case cd (str ''proposal'')
             (Model \<lparr>Proposal.tenant_id = tn, lead_id = l,
                     items = [ProposalItem_init c t d (Some (Fin 0)) (Some (Fin 100))],
                     subtotal_kes = Fin 100, tax_kes = Fin 16, total_kes = Fin 116,
                     status = Draft, ai_status = Pending, delivery_channels = [Pdf]\<rparr>) s of
          (Inr inserted_id, s') \<Rightarrow>
            (Inr (VDict [(str ''id'', VStr inserted_id),
                         (str ''status'', VStr (str ''draft_created'')),
                         (str ''totals'', VDict [(str ''subtotal'', VNum (Fin 100)),
                                                 (str ''tax'', VNum (Fin 16)),
                                                 (str ''total'', VNum (Fin 116))])]), s')
        | (Inl e, s') \<Rightarrow> (Inl (HTTPException 500 (str_of e)), s'))"
  unfolding create_proposal_draft_def Let_def
  by (simp only: ProposalDraftIn.simps subtotal_zero_quantity spec_subtotal_zero_quantity
        tax_of_100 total_of_100 simp_thms)

end
